theory Spec2Isabelle
  imports Complex_Main "HOL-Library.Monad_Syntax"
begin

section \<open>Conventions of the embedding\<close>

text \<open>
  The two programs compute with IEEE doubles. The embedding computes with the real numbers:
  every arithmetic operation of the source is the exact operation on \<^typ>\<open>real\<close>, so
  rounding and overflow are not represented. A division whose divisor is zero yields an
  infinity or a NaN in the source (numpy warns and goes on); in the embedding such a
  division ends the computation with \<open>None\<close>, and every function that divides returns
  an \<open>option\<close>. Drawing, printing and window events do not touch the simulation state and
  are left out.
\<close>

section \<open>nbody.py: the Euler program\<close>

subsection \<open>Constants\<close>

definition R_sun :: real where "R_sun = 695700000"
definition M_sun :: real where "M_sun = 2 * 10 ^ 30"
definition year :: real where "year = 36525 / 100 * 24 * 60 * 60"
definition grav_constant :: real where "grav_constant = 667 / 10 ^ 13"
definition km :: real where "km = 10 ^ 3"

subsection \<open>Particle\<close>

text \<open>
  Positions and velocities are the two-element lists of the source (only the entries 0 and 1
  are ever read or written), written as pairs.
\<close>

type_synonym vec2 = "real \<times> real"

record particle =
  position :: vec2
  velocity :: vec2
  mass :: real
  radius :: real
  colour :: string
  index :: nat

text \<open>\<open>Particle.__init__\<close>: the position is stored as it is given; velocity, mass and
  radius are scaled.\<close>

definition Particle :: "vec2 \<Rightarrow> vec2 \<Rightarrow> real \<Rightarrow> real \<Rightarrow> nat \<Rightarrow> string \<Rightarrow> particle" where
  "Particle init_pos init_vel m r idx c =
     \<lparr>position = init_pos,
      velocity = (fst init_vel * km, snd init_vel * km),
      mass = m * M_sun,
      radius = r * R_sun,
      colour = c,
      index = idx\<rparr>"

definition distance_to :: "particle \<Rightarrow> particle \<Rightarrow> real" where
  "distance_to self other =
     (let x1 = fst (position self); x2 = fst (position other);
          y1 = snd (position self); y2 = snd (position other)
      in sqrt ((x2 - x1)\<^sup>2 + (y2 - y1)\<^sup>2))"

text \<open>\<open>update_position\<close>: \<open>cycle\<close> and \<open>tracks\<close> only decide what is drawn.\<close>

definition update_position :: "particle \<Rightarrow> real \<Rightarrow> particle" where
  "update_position self dt =
     (let dx = fst (velocity self) * dt;
          dy = snd (velocity self) * dt
      in self\<lparr>position := (fst (position self) + dx, snd (position self) + dy)\<rparr>)"

subsection \<open>gravitation\<close>

text \<open>\<open>numpy.arctan2 x1 x2\<close>, the angle of the point with ordinate \<open>x1\<close> and abscissa
  \<open>x2\<close>, by its defining case distinction.\<close>

definition arctan2 :: "real \<Rightarrow> real \<Rightarrow> real" where
  "arctan2 x1 x2 =
     (if 0 < x2 then arctan (x1 / x2)
      else if x2 < 0 then (if 0 \<le> x1 then arctan (x1 / x2) + pi else arctan (x1 / x2) - pi)
      else if 0 < x1 then pi / 2
      else if x1 < 0 then - (pi / 2)
      else 0)"

text \<open>The body of the inner loop, for the pair \<open>p1\<close>, \<open>p2\<close>: the new \<open>p1\<close>.\<close>

definition gravitation_pair :: "particle \<Rightarrow> particle \<Rightarrow> real \<Rightarrow> particle option" where
  "gravitation_pair p1 p2 dt =
     (if index p1 \<noteq> index p2 then
        (let Ftop = grav_constant * mass p1 * mass p2;
             Fbot = (distance_to p1 p2)\<^sup>2
         in if Fbot = 0 \<or> mass p1 = 0 then None
            else
              (let F = Ftop / Fbot;
                   deltaX = fst (position p2) - fst (position p1);
                   deltaY = snd (position p2) - snd (position p1);
                   theta = arctan2 deltaX deltaY;
                   Fx = F * sin theta;
                   Fy = F * cos theta;
                   ax = Fx / mass p1;
                   ay = Fy / mass p1
               in Some (p1\<lparr>velocity := (fst (velocity p1) + ax * dt,
                                        snd (velocity p1) + ay * dt)\<rparr>)))
      else Some p1)"

text \<open>The inner loop \<open>for p2 in particles\<close> for the particle at place \<open>i\<close>, and the outer
  loop \<open>for p1 in particles\<close>. The list is the store: the particle at place \<open>i\<close> is
  replaced by its updated value, as the source mutates the object in place.\<close>

fun gravitation_inner :: "particle list \<Rightarrow> nat \<Rightarrow> nat list \<Rightarrow> real \<Rightarrow> particle list option" where
  "gravitation_inner ps i [] dt = Some ps"
| "gravitation_inner ps i (j # js) dt =
     (case gravitation_pair (ps ! i) (ps ! j) dt of
        None \<Rightarrow> None
      | Some p \<Rightarrow> gravitation_inner (ps[i := p]) i js dt)"

fun gravitation_outer :: "particle list \<Rightarrow> nat list \<Rightarrow> real \<Rightarrow> particle list option" where
  "gravitation_outer ps [] dt = Some ps"
| "gravitation_outer ps (i # is) dt =
     (case gravitation_inner ps i [0..<length ps] dt of
        None \<Rightarrow> None
      | Some ps' \<Rightarrow> gravitation_outer ps' is dt)"

definition gravitation :: "particle list \<Rightarrow> real \<Rightarrow> particle list option" where
  "gravitation particles dt = gravitation_outer particles [0..<length particles] dt"

subsection \<open>The cycle loop of the main program\<close>

text \<open>One cycle is the loop \<open>for j in range(len(particles))\<close>: each round calls
  \<open>gravitation\<close> on the whole list and then moves particle \<open>j\<close>.\<close>

fun cycle_loop :: "particle list \<Rightarrow> nat list \<Rightarrow> real \<Rightarrow> particle list option" where
  "cycle_loop ps [] dt = Some ps"
| "cycle_loop ps (j # js) dt =
     (case gravitation ps dt of
        None \<Rightarrow> None
      | Some ps' \<Rightarrow> cycle_loop (ps'[j := update_position (ps' ! j) dt]) js dt)"

definition cycle :: "particle list \<Rightarrow> real \<Rightarrow> particle list option" where
  "cycle particles time_step = cycle_loop particles [0..<length particles] time_step"

text \<open>The first \<open>n\<close> cycles of \<open>for cycle in range(max_cycles)\<close>.\<close>

fun run_cycles :: "nat \<Rightarrow> particle list \<Rightarrow> real \<Rightarrow> particle list option" where
  "run_cycles 0 ps dt = Some ps"
| "run_cycles (Suc n) ps dt =
     (case cycle ps dt of None \<Rightarrow> None | Some ps' \<Rightarrow> run_cycles n ps' dt)"

text \<open>The time step of the main program: \<open>--timestep\<close> when it is given and not zero
  (Python's truth test), else \<open>24 * 3600\<close>.\<close>

definition truthy :: "'a::zero option \<Rightarrow> bool" where
  "truthy v = (case v of None \<Rightarrow> False | Some x \<Rightarrow> x \<noteq> 0)"

definition main_time_step :: "real option \<Rightarrow> real" where
  "main_time_step timestep = (if truthy timestep then the timestep else 24 * 3600)"

section \<open>scripts/grav\_nbody\_rk4.py: the Runge-Kutta program\<close>

subsection \<open>Constants and vectors\<close>

text \<open>The module \<open>constants\<close> is not part of the sources at hand; its values are a
  parameter of every definition that reads them.\<close>

record constants =
  XRSUN :: real
  XKM :: real
  XMSUN :: real
  XG :: real
  XDAY :: real
  XYR :: real

text \<open>The numpy arrays of the program have three entries (\<open>np.zeros(3)\<close> is added to
  them); they are triples, with the array operations written out.\<close>

type_synonym vec3 = "real \<times> real \<times> real"

fun vadd :: "vec3 \<Rightarrow> vec3 \<Rightarrow> vec3" where
  "vadd (a, b, c) (d, e, f) = (a + d, b + e, c + f)"

fun vsub :: "vec3 \<Rightarrow> vec3 \<Rightarrow> vec3" where
  "vsub (a, b, c) (d, e, f) = (a - d, b - e, c - f)"

fun smul :: "real \<Rightarrow> vec3 \<Rightarrow> vec3" where
  "smul k (a, b, c) = (k * a, k * b, k * c)"

fun vdiv :: "vec3 \<Rightarrow> real \<Rightarrow> vec3" where
  "vdiv (a, b, c) k = (a / k, b / k, c / k)"

fun norm3 :: "vec3 \<Rightarrow> real" where
  "norm3 (a, b, c) = sqrt (a\<^sup>2 + b\<^sup>2 + c\<^sup>2)"

definition zeros3 :: vec3 where
  "zeros3 = (0, 0, 0)"

subsection \<open>Particle\<close>

record rk_particle =
  pos :: vec3
  vel :: vec3
  mas :: real
  rad :: real
  col :: "nat \<times> nat \<times> nat"

text \<open>\<open>Particle.__init__\<close> (the window argument is not used).\<close>

definition Particle_rk :: "constants \<Rightarrow> vec3 \<Rightarrow> vec3 \<Rightarrow> real \<Rightarrow> real \<Rightarrow> nat \<times> nat \<times> nat \<Rightarrow> rk_particle" where
  "Particle_rk C init_pos init_vel mass' rad' col' =
     \<lparr>pos = (case init_pos of (x, y, z) \<Rightarrow> (x * XRSUN C, y * XRSUN C, z * XRSUN C)),
      vel = (case init_vel of (x, y, z) \<Rightarrow> (x * XKM C, y * XKM C, z * XKM C)),
      mas = mass' * XMSUN C,
      rad = rad',
      col = col'\<rparr>"

definition dist_to :: "rk_particle \<Rightarrow> rk_particle \<Rightarrow> real" where
  "dist_to self other = norm3 (vsub (pos self) (pos other))"

subsection \<open>acceleration\<close>

text \<open>
  The particle list is the store of the objects: a particle is named by its place in the
  list, and \<open>p1 is not self\<close> compares places (the lists of the program hold every
  object once). The loop \<open>for p1 in particleList\<close> runs over the places \<open>js\<close> with the
  accumulator \<open>a\<close>.
\<close>

fun acceleration_loop ::
  "constants \<Rightarrow> rk_particle list \<Rightarrow> nat \<Rightarrow> vec3 \<Rightarrow> nat list \<Rightarrow> vec3 \<Rightarrow> vec3 option" where
  "acceleration_loop C particleList self position' [] a = Some a"
| "acceleration_loop C particleList self position' (j # js) a =
     (if j \<noteq> self then
        (let p1 = particleList ! j;
             delta = vsub (pos p1) position';
             dist = dist_to (particleList ! self) p1;
             dsquared = dist\<^sup>2
         in if dsquared = 0 \<or> mas (particleList ! self) = 0 then None
            else
              (let Force = XG C * mas (particleList ! self) * mas p1 / dsquared
               in acceleration_loop C particleList self position' js
                    (vadd a (smul (Force / mas (particleList ! self)) (vdiv delta dist)))))
      else acceleration_loop C particleList self position' js a)"

definition acceleration :: "constants \<Rightarrow> rk_particle list \<Rightarrow> nat \<Rightarrow> vec3 \<Rightarrow> vec3 option" where
  "acceleration C particleList self position' =
     acceleration_loop C particleList self position' [0..<length particleList] zeros3"

subsection \<open>rk4 and update\_particles\<close>

definition rk4 :: "constants \<Rightarrow> rk_particle list \<Rightarrow> nat \<Rightarrow> real \<Rightarrow> (vec3 \<times> vec3) option" where
  "rk4 C particleList particle dt =
     (let kv1 = vel (particleList ! particle);
          kp1 = pos (particleList ! particle)
      in do {
        ka1 \<leftarrow> acceleration C particleList particle kp1;
        let kv2 = vadd kv1 (smul (0.5 * dt) ka1);
        let kp2 = vadd kp1 (smul (0.5 * dt) kv2);
        ka2 \<leftarrow> acceleration C particleList particle kp2;
        let kv3 = vadd kv1 (smul (0.5 * dt) ka2);
        let kp3 = vadd kp1 (smul (0.5 * dt) kv3);
        ka3 \<leftarrow> acceleration C particleList particle kp3;
        let kv4 = vadd kv1 (smul dt ka3);
        let kp4 = vadd kp1 (smul dt kv4);
        ka4 \<leftarrow> acceleration C particleList particle kp3;
        let new_vel = vadd kv1 (smul ((1 / 6) * dt) (vadd (vadd ka1 (smul 2 (vadd ka2 ka3))) ka4));
        let new_pos = vadd kp1 (smul ((1 / 6) * dt) (vadd (vadd kv1 (smul 2 (vadd kv2 kv3))) kv4));
        Some (new_pos, new_vel)
      })"

fun update_particles_loop ::
  "constants \<Rightarrow> rk_particle list \<Rightarrow> nat list \<Rightarrow> real \<Rightarrow> rk_particle list option" where
  "update_particles_loop C Plist [] dt = Some Plist"
| "update_particles_loop C Plist (i # is) dt =
     (case rk4 C Plist i dt of
        None \<Rightarrow> None
      | Some (new_pos, new_vel) \<Rightarrow>
          update_particles_loop C (Plist[i := (Plist ! i)\<lparr>pos := new_pos, vel := new_vel\<rparr>]) is dt)"

definition update_particles :: "constants \<Rightarrow> rk_particle list \<Rightarrow> real \<Rightarrow> rk_particle list option" where
  "update_particles C Plist dt = update_particles_loop C Plist [0..<length Plist] dt"

text \<open>The first \<open>n\<close> rounds of the loop \<open>while running\<close> of \<open>main\<close>.\<close>

fun run_rk4 :: "constants \<Rightarrow> nat \<Rightarrow> rk_particle list \<Rightarrow> real \<Rightarrow> rk_particle list option" where
  "run_rk4 C 0 Plist dt = Some Plist"
| "run_rk4 C (Suc n) Plist dt =
     (case update_particles C Plist dt of None \<Rightarrow> None | Some Plist' \<Rightarrow> run_rk4 C n Plist' dt)"

subsection \<open>read\_args\<close>

record args =
  boxsize :: "int option"
  timestep :: "real option"
  winsize :: "int option"
  ticknum :: "int option"
  ticklen :: "int option"

record settings =
  WINSIZE :: int
  BOXSIZE :: real
  SCALE :: real
  TIMESTEP :: real
  TICKNUM :: int
  TICKLEN :: int

definition read_args :: "constants \<Rightarrow> args \<Rightarrow> settings" where
  "read_args C a =
     (let WINSIZE' = (if truthy (winsize a) then the (winsize a) else 1000);
          BOXSIZE' = (if truthy (boxsize a) then real_of_int (the (boxsize a)) * XRSUN C
                      else 1000 * XRSUN C);
          SCALE' = (if truthy (boxsize a) then real_of_int WINSIZE' / real_of_int (the (boxsize a))
                    else real_of_int WINSIZE' / 1000);
          TIMESTEP' = (if truthy (timestep a) then the (timestep a) else XDAY C / 10);
          TICKNUM' = (if truthy (ticknum a) then the (ticknum a) else 10);
          TICKLEN' = (if truthy (ticklen a) then the (ticklen a) else 20)
      in \<lparr>WINSIZE = WINSIZE', BOXSIZE = BOXSIZE', SCALE = SCALE', TIMESTEP = TIMESTEP',
          TICKNUM = TICKNUM', TICKLEN = TICKLEN'\<rparr>)"

subsection \<open>The Runge-Kutta step as the specification words it\<close>

text \<open>The staged scheme of the specification over an arbitrary force model, as a second
  definition to compare \<open>rk4\<close> with. The fourth acceleration is taken at \<open>kp3\<close>.\<close>

definition rk4_spec :: "(vec3 \<Rightarrow> vec3 option) \<Rightarrow> vec3 \<Rightarrow> vec3 \<Rightarrow> real \<Rightarrow> (vec3 \<times> vec3) option" where
  "rk4_spec ForceModel p0 v0 dt =
     do {
       let kv1 = v0;
       let kp1 = p0;
       ka1 \<leftarrow> ForceModel kp1;
       let kv2 = vadd kv1 (smul (0.5 * dt) ka1);
       let kp2 = vadd kp1 (smul (0.5 * dt) kv2);
       ka2 \<leftarrow> ForceModel kp2;
       let kv3 = vadd kv1 (smul (0.5 * dt) ka2);
       let kp3 = vadd kp1 (smul (0.5 * dt) kv3);
       ka3 \<leftarrow> ForceModel kp3;
       let kv4 = vadd kv1 (smul dt ka3);
       let kp4 = vadd kp1 (smul dt kv4);
       ka4 \<leftarrow> ForceModel kp3;
       let new_velocity =
         vadd v0 (smul (dt / 6) (vadd (vadd (vadd ka1 (smul 2 ka2)) (smul 2 ka3)) ka4));
       let new_position =
         vadd p0 (smul (dt / 6) (vadd (vadd (vadd kv1 (smul 2 kv2)) (smul 2 kv3)) kv4));
       Some (new_position, new_velocity)
     }"

subsection \<open>The force model as the specification words it\<close>

text \<open>The acceleration on body \<open>b\<close> at the candidate position \<open>p\<close>, with the distance
  taken from \<open>p\<close>: \<open>delta = o.position - p\<close>, \<open>dist = |delta|\<close>. A second definition, to
  compare \<open>acceleration\<close> with.\<close>

fun ForceModel_loop ::
  "constants \<Rightarrow> rk_particle list \<Rightarrow> nat \<Rightarrow> vec3 \<Rightarrow> nat list \<Rightarrow> vec3 \<Rightarrow> vec3 option" where
  "ForceModel_loop C bodies b p [] summed = Some summed"
| "ForceModel_loop C bodies b p (other # others) summed =
     (if other \<noteq> b then
        (let delta = vsub (pos (bodies ! other)) p;
             dist = norm3 delta
         in if dist = 0 \<or> mas (bodies ! b) = 0 then None
            else
              (let force_magnitude = XG C * mas (bodies ! b) * mas (bodies ! other) / dist\<^sup>2;
                   acceleration_contribution =
                     smul (force_magnitude / mas (bodies ! b)) (vdiv delta dist)
               in ForceModel_loop C bodies b p others (vadd summed acceleration_contribution)))
      else ForceModel_loop C bodies b p others summed)"

definition ForceModel_spec :: "constants \<Rightarrow> rk_particle list \<Rightarrow> nat \<Rightarrow> vec3 \<Rightarrow> vec3 option" where
  "ForceModel_spec C bodies b p = ForceModel_loop C bodies b p [0..<length bodies] zeros3"

section \<open>Notions the properties are stated with\<close>

text \<open>Total momentum, the sum of mass times velocity, for each program.\<close>

definition momentum :: "particle list \<Rightarrow> vec2" where
  "momentum ps =
     ((\<Sum>p\<leftarrow>ps. mass p * fst (velocity p)), (\<Sum>p\<leftarrow>ps. mass p * snd (velocity p)))"

definition momentum3 :: "rk_particle list \<Rightarrow> vec3" where
  "momentum3 Plist =
     ((\<Sum>p\<leftarrow>Plist. mas p * fst (vel p)),
      (\<Sum>p\<leftarrow>Plist. mas p * fst (snd (vel p))),
      (\<Sum>p\<leftarrow>Plist. mas p * snd (snd (vel p))))"

text \<open>What \<open>gravitation\<close> leaves alone (everything but the velocity), and the force of
  \<open>p2\<close> on \<open>p1\<close> as the loop body computes it.\<close>

definition rest :: "particle \<Rightarrow> vec2 \<times> real \<times> real \<times> string \<times> nat" where
  "rest p = (position p, mass p, radius p, colour p, index p)"

definition kept :: "particle \<Rightarrow> real \<times> real \<times> string \<times> nat" where
  "kept p = (mass p, radius p, colour p, index p)"

definition kept3 :: "rk_particle \<Rightarrow> real \<times> real \<times> (nat \<times> nat \<times> nat)" where
  "kept3 p = (mas p, rad p, col p)"

definition forceX :: "particle \<Rightarrow> particle \<Rightarrow> real" where
  "forceX p1 p2 =
     (if index p1 \<noteq> index p2 then
        grav_constant * mass p1 * mass p2 / (distance_to p1 p2)\<^sup>2 *
          sin (arctan2 (fst (position p2) - fst (position p1)) (snd (position p2) - snd (position p1)))
      else 0)"

definition forceY :: "particle \<Rightarrow> particle \<Rightarrow> real" where
  "forceY p1 p2 =
     (if index p1 \<noteq> index p2 then
        grav_constant * mass p1 * mass p2 / (distance_to p1 p2)\<^sup>2 *
          cos (arctan2 (fst (position p2) - fst (position p1)) (snd (position p2) - snd (position p1)))
      else 0)"

definition Px :: "particle list \<Rightarrow> real" where
  "Px ps = (\<Sum>p\<leftarrow>ps. mass p * fst (velocity p))"

definition Py :: "particle list \<Rightarrow> real" where
  "Py ps = (\<Sum>p\<leftarrow>ps. mass p * snd (velocity p))"

section \<open>Concrete systems\<close>

text \<open>The constants of nbody.py, as the values of the \<open>constants\<close> module; \<open>XDAY\<close> and
  \<open>XYR\<close> are a day and a Julian year in seconds.\<close>

definition nbody_constants :: constants where
  "nbody_constants =
     \<lparr>XRSUN = 695700000, XKM = 1000, XMSUN = 2 * 10 ^ 30, XG = 667 / 10 ^ 13,
      XDAY = 86400, XYR = 31557600\<rparr>"

text \<open>Two particles at rest on the x axis, one metre apart, each of mass \<open>2 / G\<close>; the
  list after the first particle's \<open>rk4\<close> update with \<open>dt = 1\<close>, and after both.\<close>

definition pair3 :: "rk_particle list" where
  "pair3 =
     [\<lparr>pos = (0, 0, 0), vel = (0, 0, 0), mas = 2 * 10 ^ 13 / 667, rad = 10, col = (255, 0, 0)\<rparr>,
      \<lparr>pos = (1, 0, 0), vel = (0, 0, 0), mas = 2 * 10 ^ 13 / 667, rad = 5, col = (0, 255, 0)\<rparr>]"

definition pair3_half :: "rk_particle list" where
  "pair3_half =
     [\<lparr>pos = (3 / 4, 0, 0), vel = (17 / 12, 0, 0), mas = 2 * 10 ^ 13 / 667, rad = 10,
        col = (255, 0, 0)\<rparr>,
      \<lparr>pos = (1, 0, 0), vel = (0, 0, 0), mas = 2 * 10 ^ 13 / 667, rad = 5, col = (0, 255, 0)\<rparr>]"

definition pair3_after :: "rk_particle list" where
  "pair3_after =
     [\<lparr>pos = (3 / 4, 0, 0), vel = (17 / 12, 0, 0), mas = 2 * 10 ^ 13 / 667, rad = 10,
        col = (255, 0, 0)\<rparr>,
      \<lparr>pos = (- 5135, 0, 0), vel = (- (46688 / 3), 0, 0), mas = 2 * 10 ^ 13 / 667, rad = 5,
        col = (0, 255, 0)\<rparr>]"

text \<open>Two particles at rest on the x axis, two metres apart, each of mass \<open>1 / G\<close>, and
  the states one cycle with \<open>dt = 2\<close> takes them through: after the first call of
  \<open>gravitation\<close>, after particle 0 has moved, after the second call, after particle 1 has
  moved.\<close>

definition euler_pair :: "particle list" where
  "euler_pair =
     [\<lparr>position = (0, 0), velocity = (0, 0), mass = 10 ^ 13 / 667, radius = 1,
        colour = ''#FF0000'', index = 0\<rparr>,
      \<lparr>position = (2, 0), velocity = (0, 0), mass = 10 ^ 13 / 667, radius = 1,
        colour = ''#00FF00'', index = 1\<rparr>]"

definition euler_pair_kicked :: "particle list" where
  "euler_pair_kicked =
     [\<lparr>position = (0, 0), velocity = (1 / 2, 0), mass = 10 ^ 13 / 667, radius = 1,
        colour = ''#FF0000'', index = 0\<rparr>,
      \<lparr>position = (2, 0), velocity = (- (1 / 2), 0), mass = 10 ^ 13 / 667, radius = 1,
        colour = ''#00FF00'', index = 1\<rparr>]"

definition euler_pair_moved :: "particle list" where
  "euler_pair_moved =
     [\<lparr>position = (1, 0), velocity = (1 / 2, 0), mass = 10 ^ 13 / 667, radius = 1,
        colour = ''#FF0000'', index = 0\<rparr>,
      \<lparr>position = (2, 0), velocity = (- (1 / 2), 0), mass = 10 ^ 13 / 667, radius = 1,
        colour = ''#00FF00'', index = 1\<rparr>]"

definition euler_pair_kicked2 :: "particle list" where
  "euler_pair_kicked2 =
     [\<lparr>position = (1, 0), velocity = (5 / 2, 0), mass = 10 ^ 13 / 667, radius = 1,
        colour = ''#FF0000'', index = 0\<rparr>,
      \<lparr>position = (2, 0), velocity = (- (5 / 2), 0), mass = 10 ^ 13 / 667, radius = 1,
        colour = ''#00FF00'', index = 1\<rparr>]"

definition euler_pair_after :: "particle list" where
  "euler_pair_after =
     [\<lparr>position = (1, 0), velocity = (5 / 2, 0), mass = 10 ^ 13 / 667, radius = 1,
        colour = ''#FF0000'', index = 0\<rparr>,
      \<lparr>position = (- 3, 0), velocity = (- (5 / 2), 0), mass = 10 ^ 13 / 667, radius = 1,
        colour = ''#00FF00'', index = 1\<rparr>]"

text \<open>The two systems again with the first particle of mass zero, at distinct positions.\<close>

definition massless_pair :: "particle list" where
  "massless_pair =
     [\<lparr>position = (0, 0), velocity = (0, 0), mass = 0, radius = 1,
        colour = ''#FF0000'', index = 0\<rparr>,
      \<lparr>position = (2, 0), velocity = (0, 0), mass = 10 ^ 13 / 667, radius = 1,
        colour = ''#00FF00'', index = 1\<rparr>]"

definition massless_pair3 :: "rk_particle list" where
  "massless_pair3 =
     [\<lparr>pos = (0, 0, 0), vel = (0, 0, 0), mas = 0, rad = 10, col = (255, 0, 0)\<rparr>,
      \<lparr>pos = (1, 0, 0), vel = (0, 0, 0), mas = 2 * 10 ^ 13 / 667, rad = 5, col = (0, 255, 0)\<rparr>]"

section \<open>Properties\<close>

subsection \<open>The stages of rk4\<close>

lemma combine_eq:
  "smul ((1 / 6) * dt) (vadd (vadd a (smul 2 (vadd b c))) d) =
   smul (dt / 6) (vadd (vadd (vadd a (smul 2 b)) (smul 2 c)) d)"
  by (cases a; cases b; cases c; cases d) (simp add: algebra_simps)

text \<open>
  C2. For every particle, particle list and time step, \<open>rk4\<close> computes the staged values
  \<open>kv1 = v0\<close>, \<open>kp1 = p0\<close>, \<open>ka1\<close> at \<open>kp1\<close>, \<open>kv2 = kv1 + 0.5 dt ka1\<close>,
  \<open>kp2 = kp1 + 0.5 dt kv2\<close>, \<open>ka2\<close> at \<open>kp2\<close>, \<open>kv3 = kv1 + 0.5 dt ka2\<close>,
  \<open>kp3 = kp1 + 0.5 dt kv3\<close>, \<open>ka3\<close> at \<open>kp3\<close>, \<open>kv4 = kv1 + dt ka3\<close>,
  \<open>kp4 = kp1 + dt kv4\<close>, \<open>ka4\<close> again at \<open>kp3\<close>, and returns
  \<open>v0 + (dt/6) (ka1 + 2 ka2 + 2 ka3 + ka4)\<close> and \<open>p0 + (dt/6) (kv1 + 2 kv2 + 2 kv3 + kv4)\<close>:
  it is the scheme \<open>rk4_spec\<close> with \<open>acceleration\<close> as its force model, and fails exactly
  when that scheme does.
\<close>

theorem rk4_stages:
  "rk4 C particleList particle dt =
   rk4_spec (acceleration C particleList particle)
     (pos (particleList ! particle)) (vel (particleList ! particle)) dt"
  unfolding rk4_def rk4_spec_def Let_def combine_eq ..

subsection \<open>The angle of numpy.arctan2\<close>

lemma sin_cos_arctan_pos:
  assumes "0 < x"
  shows "sin (arctan (y / x)) = y / sqrt (x\<^sup>2 + y\<^sup>2)"
    and "cos (arctan (y / x)) = x / sqrt (x\<^sup>2 + y\<^sup>2)"
proof -
  have "1 + (y / x)\<^sup>2 = (x\<^sup>2 + y\<^sup>2) / x\<^sup>2"
    using assms by (simp add: power_divide add_divide_distrib)
  then have s: "sqrt (1 + (y / x)\<^sup>2) = sqrt (x\<^sup>2 + y\<^sup>2) / x"
    using assms by (simp add: real_sqrt_divide)
  show "sin (arctan (y / x)) = y / sqrt (x\<^sup>2 + y\<^sup>2)"
    using assms by (simp add: sin_arctan s)
  show "cos (arctan (y / x)) = x / sqrt (x\<^sup>2 + y\<^sup>2)"
    using assms by (simp add: cos_arctan s)
qed

lemma sin_cos_arctan_neg:
  assumes "x < 0"
  shows "sin (arctan (y / x)) = - y / sqrt (x\<^sup>2 + y\<^sup>2)"
    and "cos (arctan (y / x)) = - x / sqrt (x\<^sup>2 + y\<^sup>2)"
proof -
  have "0 < - x" using assms by simp
  from sin_cos_arctan_pos [OF this, of "- y"]
  show "sin (arctan (y / x)) = - y / sqrt (x\<^sup>2 + y\<^sup>2)"
    and "cos (arctan (y / x)) = - x / sqrt (x\<^sup>2 + y\<^sup>2)"
    by simp_all
qed

lemma sin_arctan2: "sin (arctan2 y x) = y / sqrt (x\<^sup>2 + y\<^sup>2)"
proof -
  consider "0 < x" | "x < 0" "0 \<le> y" | "x < 0" "y < 0" | "x = 0" "0 < y" | "x = 0" "y < 0" | "x = 0" "y = 0"
    by linarith
  then show ?thesis
  proof cases
    case 1 then show ?thesis by (simp add: arctan2_def sin_cos_arctan_pos)
  next
    case 2 then show ?thesis by (simp add: arctan2_def sin_cos_arctan_neg)
  next
    case 3 then show ?thesis by (simp add: arctan2_def sin_cos_arctan_neg sin_diff)
  next
    case 4 then show ?thesis by (simp add: arctan2_def)
  next
    case 5 then show ?thesis by (simp add: arctan2_def real_sqrt_abs2)
  next
    case 6 then show ?thesis by (simp add: arctan2_def)
  qed
qed

lemma cos_arctan2: "x \<noteq> 0 \<or> y \<noteq> 0 \<Longrightarrow> cos (arctan2 y x) = x / sqrt (x\<^sup>2 + y\<^sup>2)"
proof -
  assume nz: "x \<noteq> 0 \<or> y \<noteq> 0"
  consider "0 < x" | "x < 0" "0 \<le> y" | "x < 0" "y < 0" | "x = 0" "0 < y" | "x = 0" "y < 0" | "x = 0" "y = 0"
    by linarith
  then show ?thesis
  proof cases
    case 1 then show ?thesis by (simp add: arctan2_def sin_cos_arctan_pos)
  next
    case 2 then show ?thesis by (simp add: arctan2_def sin_cos_arctan_neg)
  next
    case 3 then show ?thesis by (simp add: arctan2_def sin_cos_arctan_neg cos_diff)
  next
    case 4 then show ?thesis by (simp add: arctan2_def)
  next
    case 5 then show ?thesis by (simp add: arctan2_def)
  next
    case 6 then show ?thesis using nz by simp
  qed
qed

subsection \<open>The force between two particles\<close>

lemma distance_to_sym: "distance_to p q = distance_to q p"
  by (simp add: distance_to_def Let_def power2_commute)

lemma distance_to_zero_iff: "distance_to p q = 0 \<longleftrightarrow> position p = position q"
  by (auto simp: distance_to_def Let_def prod_eq_iff)

lemma forceX_antisym: "forceX q p = - forceX p q"
proof -
  define dx where "dx = fst (position q) - fst (position p)"
  define dy where "dy = snd (position q) - snd (position p)"
  have e: "fst (position p) - fst (position q) = - dx" "snd (position p) - snd (position q) = - dy"
    by (simp_all add: dx_def dy_def)
  show ?thesis
    unfolding forceX_def sin_arctan2 distance_to_sym [of q p] e
    unfolding dx_def [symmetric] dy_def [symmetric]
    by (simp add: mult.commute)
qed

lemma forceY_antisym: "forceY q p = - forceY p q"
proof (cases "index p \<noteq> index q \<and> position p \<noteq> position q")
  case True
  define dx where "dx = fst (position q) - fst (position p)"
  define dy where "dy = snd (position q) - snd (position p)"
  have e: "fst (position p) - fst (position q) = - dx" "snd (position p) - snd (position q) = - dy"
    by (simp_all add: dx_def dy_def)
  from True have nz: "dy \<noteq> 0 \<or> dx \<noteq> 0" and nz': "- dy \<noteq> 0 \<or> - dx \<noteq> 0"
    by (auto simp: prod_eq_iff dx_def dy_def)
  show ?thesis
    unfolding forceY_def distance_to_sym [of q p] e
    unfolding dx_def [symmetric] dy_def [symmetric] cos_arctan2 [OF nz] cos_arctan2 [OF nz']
    by (simp add: mult.commute)
next
  case False
  then consider "index p = index q" | "position p = position q" by blast
  then show ?thesis
  proof cases
    case 1 then show ?thesis by (simp add: forceY_def)
  next
    case 2
    then have "distance_to p q = 0" "distance_to q p = 0"
      by (simp_all add: distance_to_zero_iff)
    then show ?thesis by (simp add: forceY_def)
  qed
qed

lemma rest_velocity_update [simp]: "rest (p\<lparr>velocity := v\<rparr>) = rest p"
  by (simp add: rest_def)

lemma forceX_rest: "rest p = rest p' \<Longrightarrow> rest q = rest q' \<Longrightarrow> forceX p q = forceX p' q'"
  by (simp add: forceX_def rest_def distance_to_def)

lemma forceY_rest: "rest p = rest p' \<Longrightarrow> rest q = rest q' \<Longrightarrow> forceY p q = forceY p' q'"
  by (simp add: forceY_def rest_def distance_to_def)

lemma gravitation_pair_Some:
  assumes "gravitation_pair p1 p2 dt = Some p"
  shows "rest p = rest p1"
    and "mass p * fst (velocity p) = mass p1 * fst (velocity p1) + forceX p1 p2 * dt"
    and "mass p * snd (velocity p) = mass p1 * snd (velocity p1) + forceY p1 p2 * dt"
  using assms
  by (auto simp: gravitation_pair_def Let_def forceX_def forceY_def rest_def algebra_simps
      split: if_splits)

subsection \<open>Lists updated in place\<close>

lemma map_update_same: "f y = f (xs ! i) \<Longrightarrow> map f (xs[i := y]) = map f xs"
proof (cases "i < length xs")
  case True
  assume "f y = f (xs ! i)"
  with True have "(map f xs)[i := f y] = (map f xs)[i := map f xs ! i]" by simp
  then show ?thesis by (simp only: map_update list_update_id)
next
  case False
  then show ?thesis by (simp add: list_update_beyond)
qed

lemma sum_list_update_real:
  "i < length xs \<Longrightarrow> sum_list (xs[i := y]) = sum_list xs + y - xs ! i" for xs :: "real list"
proof (induction xs arbitrary: i)
  case Nil
  then show ?case by simp
next
  case (Cons x xs)
  then show ?case by (cases i) simp_all
qed

lemma sum_list_map_update:
  "i < length xs \<Longrightarrow> (\<Sum>x\<leftarrow>xs[i := y]. f x) = (\<Sum>x\<leftarrow>xs. f x) + f y - f (xs ! i)" for f :: "'a \<Rightarrow> real"
proof -
  assume "i < length xs"
  then have "sum_list ((map f xs)[i := f y]) = sum_list (map f xs) + f y - map f xs ! i"
    by (simp only: sum_list_update_real length_map)
  then show ?thesis using \<open>i < length xs\<close> by (simp add: map_update)
qed

lemma map_rest_nth: "map rest ps' = map rest ps \<Longrightarrow> k < length ps \<Longrightarrow> rest (ps' ! k) = rest (ps ! k)"
  by (metis length_map nth_map)

subsection \<open>What one call of gravitation does to the momentum\<close>

lemma gravitation_inner_Some:
  assumes "i < length ps" "set js \<subseteq> {..<length ps}" "gravitation_inner ps i js dt = Some ps'"
  shows "map rest ps' = map rest ps
       \<and> Px ps' = Px ps + dt * (\<Sum>j\<leftarrow>js. forceX (ps ! i) (ps ! j))
       \<and> Py ps' = Py ps + dt * (\<Sum>j\<leftarrow>js. forceY (ps ! i) (ps ! j))"
  using assms
proof (induction js arbitrary: ps)
  case Nil
  then show ?case by simp
next
  case (Cons j js)
  from Cons.prems(3) obtain p where p: "gravitation_pair (ps ! i) (ps ! j) dt = Some p"
    and rec: "gravitation_inner (ps[i := p]) i js dt = Some ps'"
    by (auto split: option.splits)
  let ?ps1 = "ps[i := p]"
  note pr = gravitation_pair_Some [OF p]
  have r1: "map rest ?ps1 = map rest ps"
    using pr(1) by (rule map_update_same)
  have len: "length ?ps1 = length ps" by simp
  have ih: "map rest ps' = map rest ?ps1
       \<and> Px ps' = Px ?ps1 + dt * (\<Sum>j\<leftarrow>js. forceX (?ps1 ! i) (?ps1 ! j))
       \<and> Py ps' = Py ?ps1 + dt * (\<Sum>j\<leftarrow>js. forceY (?ps1 ! i) (?ps1 ! j))"
    using Cons.IH [of ?ps1] Cons.prems(1,2) rec by simp
  have fx: "(\<Sum>j\<leftarrow>js. forceX (?ps1 ! i) (?ps1 ! j)) = (\<Sum>j\<leftarrow>js. forceX (ps ! i) (ps ! j))"
  proof (rule arg_cong [where f = sum_list], rule map_cong [OF refl])
    fix k assume "k \<in> set js"
    then have "k < length ps" using Cons.prems(2) by auto
    then show "forceX (?ps1 ! i) (?ps1 ! k) = forceX (ps ! i) (ps ! k)"
      using Cons.prems(1) by (intro forceX_rest map_rest_nth r1)
  qed
  have fy: "(\<Sum>j\<leftarrow>js. forceY (?ps1 ! i) (?ps1 ! j)) = (\<Sum>j\<leftarrow>js. forceY (ps ! i) (ps ! j))"
  proof (rule arg_cong [where f = sum_list], rule map_cong [OF refl])
    fix k assume "k \<in> set js"
    then have "k < length ps" using Cons.prems(2) by auto
    then show "forceY (?ps1 ! i) (?ps1 ! k) = forceY (ps ! i) (ps ! k)"
      using Cons.prems(1) by (intro forceY_rest map_rest_nth r1)
  qed
  have px1: "Px ?ps1 = Px ps + forceX (ps ! i) (ps ! j) * dt"
    unfolding Px_def using Cons.prems(1) pr(2) by (simp add: sum_list_map_update)
  have py1: "Py ?ps1 = Py ps + forceY (ps ! i) (ps ! j) * dt"
    unfolding Py_def using Cons.prems(1) pr(3) by (simp add: sum_list_map_update)
  show ?case
    using ih r1 by (simp add: fx fy px1 py1 algebra_simps)
qed

lemma gravitation_outer_Some:
  assumes "set is \<subseteq> {..<length ps}" "gravitation_outer ps is dt = Some ps'"
  shows "map rest ps' = map rest ps
       \<and> Px ps' = Px ps + dt * (\<Sum>i\<leftarrow>is. \<Sum>j\<leftarrow>[0..<length ps]. forceX (ps ! i) (ps ! j))
       \<and> Py ps' = Py ps + dt * (\<Sum>i\<leftarrow>is. \<Sum>j\<leftarrow>[0..<length ps]. forceY (ps ! i) (ps ! j))"
  using assms
proof (induction "is" arbitrary: ps)
  case Nil
  then show ?case by simp
next
  case (Cons i "is")
  from Cons.prems(2) obtain ps1 where inner: "gravitation_inner ps i [0..<length ps] dt = Some ps1"
    and rec: "gravitation_outer ps1 is dt = Some ps'"
    by (auto split: option.splits)
  have i: "i < length ps" using Cons.prems(1) by simp
  have sub: "set [0..<length ps] \<subseteq> {..<length ps}" by auto
  have s1: "map rest ps1 = map rest ps
       \<and> Px ps1 = Px ps + dt * (\<Sum>j\<leftarrow>[0..<length ps]. forceX (ps ! i) (ps ! j))
       \<and> Py ps1 = Py ps + dt * (\<Sum>j\<leftarrow>[0..<length ps]. forceY (ps ! i) (ps ! j))"
    by (rule gravitation_inner_Some [OF i sub inner])
  then have len: "length ps1 = length ps" by (metis length_map)
  have ih: "map rest ps' = map rest ps1
       \<and> Px ps' = Px ps1 + dt * (\<Sum>i\<leftarrow>is. \<Sum>j\<leftarrow>[0..<length ps]. forceX (ps1 ! i) (ps1 ! j))
       \<and> Py ps' = Py ps1 + dt * (\<Sum>i\<leftarrow>is. \<Sum>j\<leftarrow>[0..<length ps]. forceY (ps1 ! i) (ps1 ! j))"
    using Cons.IH [of ps1] Cons.prems(1) rec len by simp
  have same: "k < length ps \<Longrightarrow> rest (ps1 ! k) = rest (ps ! k)" for k
    using s1 by (intro map_rest_nth) simp_all
  have fx: "(\<Sum>i\<leftarrow>is. \<Sum>j\<leftarrow>[0..<length ps]. forceX (ps1 ! i) (ps1 ! j))
          = (\<Sum>i\<leftarrow>is. \<Sum>j\<leftarrow>[0..<length ps]. forceX (ps ! i) (ps ! j))"
  proof (rule arg_cong [where f = sum_list], rule map_cong [OF refl],
         rule arg_cong [where f = sum_list], rule map_cong [OF refl])
    fix a b assume "a \<in> set is" "b \<in> set [0..<length ps]"
    then have "a < length ps" "b < length ps" using Cons.prems(1) by auto
    then show "forceX (ps1 ! a) (ps1 ! b) = forceX (ps ! a) (ps ! b)"
      by (intro forceX_rest same)
  qed
  have fy: "(\<Sum>i\<leftarrow>is. \<Sum>j\<leftarrow>[0..<length ps]. forceY (ps1 ! i) (ps1 ! j))
          = (\<Sum>i\<leftarrow>is. \<Sum>j\<leftarrow>[0..<length ps]. forceY (ps ! i) (ps ! j))"
  proof (rule arg_cong [where f = sum_list], rule map_cong [OF refl],
         rule arg_cong [where f = sum_list], rule map_cong [OF refl])
    fix a b assume "a \<in> set is" "b \<in> set [0..<length ps]"
    then have "a < length ps" "b < length ps" using Cons.prems(1) by auto
    then show "forceY (ps1 ! a) (ps1 ! b) = forceY (ps ! a) (ps ! b)"
      by (intro forceY_rest same)
  qed
  show ?case
    using ih s1 by (simp add: fx fy algebra_simps)
qed

lemma antisym_double_sum:
  fixes f :: "nat \<Rightarrow> nat \<Rightarrow> real"
  assumes "\<And>i j. f j i = - f i j"
  shows "(\<Sum>i\<leftarrow>[0..<n]. \<Sum>j\<leftarrow>[0..<n]. f i j) = 0"
proof -
  let ?S = "\<Sum>i\<in>{0..<n}. \<Sum>j\<in>{0..<n}. f i j"
  have "?S = (\<Sum>i\<in>{0..<n}. \<Sum>j\<in>{0..<n}. - f j i)"
    by (rule sum.cong [OF refl], rule sum.cong [OF refl], rule assms)
  also have "\<dots> = - (\<Sum>i\<in>{0..<n}. \<Sum>j\<in>{0..<n}. f j i)"
    by (simp add: sum_negf)
  also have "(\<Sum>i\<in>{0..<n}. \<Sum>j\<in>{0..<n}. f j i) = ?S"
    by (rule sum.swap)
  finally have "?S = 0" by simp
  then show ?thesis
    by (simp add: interv_sum_list_conv_sum_set_nat)
qed

lemma gravitation_Some:
  assumes "gravitation ps dt = Some ps'"
  shows "map rest ps' = map rest ps" and "Px ps' = Px ps" and "Py ps' = Py ps"
proof -
  have sub: "set [0..<length ps] \<subseteq> {..<length ps}" by auto
  from assms have o: "gravitation_outer ps [0..<length ps] dt = Some ps'"
    by (simp add: gravitation_def)
  note r = gravitation_outer_Some [OF sub o]
  have zx: "(\<Sum>i\<leftarrow>[0..<length ps]. \<Sum>j\<leftarrow>[0..<length ps]. forceX (ps ! i) (ps ! j)) = 0"
    by (rule antisym_double_sum) (rule forceX_antisym)
  have zy: "(\<Sum>i\<leftarrow>[0..<length ps]. \<Sum>j\<leftarrow>[0..<length ps]. forceY (ps ! i) (ps ! j)) = 0"
    by (rule antisym_double_sum) (rule forceY_antisym)
  show "map rest ps' = map rest ps" using r by simp
  show "Px ps' = Px ps" using r by (simp add: zx)
  show "Py ps' = Py ps" using r by (simp add: zy)
qed

subsection \<open>Cycles of the Euler program\<close>

lemma momentum_Px_Py: "momentum ps = (Px ps, Py ps)"
  by (simp add: momentum_def Px_def Py_def)

lemma rest_kept: "map rest ps' = map rest ps \<Longrightarrow> map kept ps' = map kept ps"
proof -
  assume a: "map rest ps' = map rest ps"
  have "kept = (\<lambda>(a, b). b) \<circ> rest"
    by (auto simp: kept_def rest_def fun_eq_iff)
  then have "map kept ps = map (\<lambda>(a, b). b) (map rest ps)" "map kept ps' = map (\<lambda>(a, b). b) (map rest ps')"
    by simp_all
  with a show ?thesis by simp
qed

lemma update_position_keeps:
  "kept (update_position p dt) = kept p"
  "velocity (update_position p dt) = velocity p"
  "mass (update_position p dt) = mass p"
  by (simp_all add: update_position_def kept_def Let_def)

lemma moved_momentum: "momentum (ps[j := update_position (ps ! j) dt]) = momentum ps"
proof -
  have "map (\<lambda>p. mass p * fst (velocity p)) (ps[j := update_position (ps ! j) dt])
      = map (\<lambda>p. mass p * fst (velocity p)) ps"
    by (rule map_update_same) (simp add: update_position_keeps)
  moreover have "map (\<lambda>p. mass p * snd (velocity p)) (ps[j := update_position (ps ! j) dt])
      = map (\<lambda>p. mass p * snd (velocity p)) ps"
    by (rule map_update_same) (simp add: update_position_keeps)
  ultimately show ?thesis by (simp add: momentum_def)
qed

lemma cycle_loop_Some:
  "cycle_loop ps js dt = Some ps' \<Longrightarrow> map kept ps' = map kept ps \<and> momentum ps' = momentum ps"
proof (induction js arbitrary: ps)
  case Nil
  then show ?case by simp
next
  case (Cons j js)
  from Cons.prems obtain ps1 where g: "gravitation ps dt = Some ps1"
    and rec: "cycle_loop (ps1[j := update_position (ps1 ! j) dt]) js dt = Some ps'"
    by (auto split: option.splits)
  let ?ps2 = "ps1[j := update_position (ps1 ! j) dt]"
  note gs = gravitation_Some [OF g]
  have k1: "map kept ps1 = map kept ps" using gs(1) by (rule rest_kept)
  have m1: "momentum ps1 = momentum ps" using gs(2,3) by (simp add: momentum_Px_Py)
  have k2: "map kept ?ps2 = map kept ps1"
    by (rule map_update_same) (simp add: update_position_keeps)
  have m2: "momentum ?ps2 = momentum ps1" by (rule moved_momentum)
  from Cons.IH [OF rec] show ?case by (simp add: k1 k2 m1 m2)
qed

lemma run_cycles_Some:
  "run_cycles n ps dt = Some ps' \<Longrightarrow> map kept ps' = map kept ps \<and> momentum ps' = momentum ps"
proof (induction n arbitrary: ps)
  case 0
  then show ?case by simp
next
  case (Suc n)
  from Suc.prems obtain ps1 where c: "cycle ps dt = Some ps1" and rec: "run_cycles n ps1 dt = Some ps'"
    by (auto split: option.splits)
  from c have "map kept ps1 = map kept ps \<and> momentum ps1 = momentum ps"
    unfolding cycle_def by (rule cycle_loop_Some)
  with Suc.IH [OF rec] show ?case by simp
qed

subsection \<open>A single particle under the Euler program\<close>

lemma gravitation_single: "gravitation [p] dt = Some [p]"
  by (simp add: gravitation_def gravitation_pair_def)

lemma cycle_single: "cycle [p] dt = Some [update_position p dt]"
  by (simp add: cycle_def gravitation_single)

lemma run_cycles_single: "\<exists>p'. run_cycles n [p] dt = Some [p'] \<and> velocity p' = velocity p"
proof (induction n arbitrary: p)
  case 0
  then show ?case by simp
next
  case (Suc n)
  from Suc.IH [of "update_position p dt"] show ?case
    by (simp add: cycle_single update_position_keeps)
qed

subsection \<open>The Euler program with a zero time step\<close>

lemma gravitation_pair_zero:
  assumes "index p1 \<noteq> index p2 \<longrightarrow> position p1 \<noteq> position p2 \<and> mass p1 \<noteq> 0"
  shows "gravitation_pair p1 p2 0 = Some p1"
  using assms by (simp add: gravitation_pair_def Let_def distance_to_zero_iff)

lemma gravitation_inner_zero:
  assumes "\<forall>j\<in>set js. index (ps ! i) \<noteq> index (ps ! j) \<longrightarrow>
             position (ps ! i) \<noteq> position (ps ! j) \<and> mass (ps ! i) \<noteq> 0"
  shows "gravitation_inner ps i js 0 = Some ps"
  using assms
proof (induction js)
  case Nil
  then show ?case by simp
next
  case (Cons j js)
  then have "gravitation_pair (ps ! i) (ps ! j) 0 = Some (ps ! i)"
    by (intro gravitation_pair_zero) simp
  moreover have "\<forall>j\<in>set js. index (ps ! i) \<noteq> index (ps ! j) \<longrightarrow>
             position (ps ! i) \<noteq> position (ps ! j) \<and> mass (ps ! i) \<noteq> 0"
    using Cons.prems by simp
  then have "gravitation_inner ps i js 0 = Some ps"
    by (rule Cons.IH)
  ultimately show ?case by simp
qed

lemma distinct_map_nth:
  assumes "distinct (map f xs)" "i < length xs" "j < length xs" "i \<noteq> j"
  shows "f (xs ! i) \<noteq> f (xs ! j)"
proof -
  have "i < length (map f xs)" "j < length (map f xs)"
    using assms(2,3) by simp_all
  with assms(1,4) have "map f xs ! i \<noteq> map f xs ! j"
    by (simp only: nth_eq_iff_index_eq not_False_eq_True)
  then show ?thesis using assms(2,3) by simp
qed

lemma gravitation_outer_zero:
  assumes "distinct (map position ps)" "list_all (\<lambda>p. mass p \<noteq> 0) ps" "set is \<subseteq> {..<length ps}"
  shows "gravitation_outer ps is 0 = Some ps"
  using assms(3)
proof (induction "is")
  case Nil
  then show ?case by simp
next
  case (Cons i "is")
  then have i: "i < length ps" by simp
  have "gravitation_inner ps i [0..<length ps] 0 = Some ps"
  proof (rule gravitation_inner_zero, intro ballI impI)
    fix j assume j: "j \<in> set [0..<length ps]" and d: "index (ps ! i) \<noteq> index (ps ! j)"
    then have "i \<noteq> j" "j < length ps" by auto
    then have "position (ps ! i) \<noteq> position (ps ! j)"
      using assms(1) i by (intro distinct_map_nth)
    moreover have "mass (ps ! i) \<noteq> 0"
      using assms(2) i by (simp add: list_all_length)
    ultimately show "position (ps ! i) \<noteq> position (ps ! j) \<and> mass (ps ! i) \<noteq> 0" ..
  qed
  with Cons show ?case by simp
qed

lemma update_position_zero: "update_position p 0 = p"
  by (simp add: update_position_def)

lemma cycle_loop_zero:
  assumes "distinct (map position ps)" "list_all (\<lambda>p. mass p \<noteq> 0) ps"
  shows "cycle_loop ps js 0 = Some ps"
proof (induction js)
  case Nil
  then show ?case by simp
next
  case (Cons j js)
  have "gravitation ps 0 = Some ps"
    unfolding gravitation_def using assms by (intro gravitation_outer_zero) auto
  with Cons show ?case by (simp add: update_position_zero)
qed

lemma run_cycles_zero:
  assumes "distinct (map position ps)" "list_all (\<lambda>p. mass p \<noteq> 0) ps"
  shows "run_cycles n ps 0 = Some ps"
  by (induction n) (simp_all add: cycle_def cycle_loop_zero [OF assms])

subsection \<open>Vectors\<close>

lemma vadd_zeros [simp]: "vadd v zeros3 = v" "vadd zeros3 v = v"
  by (cases v; simp add: zeros3_def)+

lemma smul_zero [simp]: "smul 0 v = zeros3" "smul k zeros3 = zeros3"
  by (cases v; simp add: zeros3_def)+

lemma norm3_zero_iff: "norm3 v = 0 \<longleftrightarrow> v = zeros3"
proof (cases v)
  case (fields a b c)
  have "a\<^sup>2 + b\<^sup>2 + c\<^sup>2 = 0 \<longleftrightarrow> a = 0 \<and> b = 0 \<and> c = 0"
  proof
    assume h: "a\<^sup>2 + b\<^sup>2 + c\<^sup>2 = 0"
    have "0 \<le> a\<^sup>2" "0 \<le> b\<^sup>2" "0 \<le> c\<^sup>2" by simp_all
    with h have "a\<^sup>2 = 0" "b\<^sup>2 = 0" "c\<^sup>2 = 0" by linarith+
    then show "a = 0 \<and> b = 0 \<and> c = 0" by simp
  qed simp
  then show ?thesis using fields by (simp add: zeros3_def)
qed

lemma dist_to_zero_iff: "dist_to p q = 0 \<longleftrightarrow> pos p = pos q"
proof -
  have "vsub a b = zeros3 \<longleftrightarrow> a = b" for a b
    by (cases a; cases b) (simp add: zeros3_def)
  then show ?thesis by (simp add: dist_to_def norm3_zero_iff)
qed

subsection \<open>A single particle under the Runge-Kutta program\<close>

lemma acceleration_single: "acceleration C [p] 0 x = Some zeros3"
  by (simp add: acceleration_def)

lemma rk4_single: "\<exists>new_pos. rk4 C [p] 0 dt = Some (new_pos, vel p)"
  by (simp add: rk4_def acceleration_single Let_def del: split_paired_Ex)

lemma update_particles_single: "\<exists>p'. update_particles C [p] dt = Some [p'] \<and> vel p' = vel p"
proof -
  obtain np where "rk4 C [p] 0 dt = Some (np, vel p)" using rk4_single by blast
  then show ?thesis by (simp add: update_particles_def)
qed

lemma run_rk4_single: "\<exists>p'. run_rk4 C n [p] dt = Some [p'] \<and> vel p' = vel p"
proof (induction n arbitrary: p)
  case 0
  then show ?case by simp
next
  case (Suc n)
  obtain p1 where p1: "update_particles C [p] dt = Some [p1]" "vel p1 = vel p"
    using update_particles_single by blast
  with Suc.IH [of p1] show ?case by simp
qed

subsection \<open>What update\_particles leaves alone\<close>

lemma update_particles_loop_kept:
  "update_particles_loop C Plist is dt = Some Plist' \<Longrightarrow> map kept3 Plist' = map kept3 Plist"
proof (induction "is" arbitrary: Plist)
  case Nil
  then show ?case by simp
next
  case (Cons i "is")
  from Cons.prems obtain np nv where
    rec: "update_particles_loop C (Plist[i := (Plist ! i)\<lparr>pos := np, vel := nv\<rparr>]) is dt = Some Plist'"
    by (auto split: option.splits)
  have "map kept3 (Plist[i := (Plist ! i)\<lparr>pos := np, vel := nv\<rparr>]) = map kept3 Plist"
    by (rule map_update_same) (simp add: kept3_def)
  with Cons.IH [OF rec] show ?case by simp
qed

lemma run_rk4_kept:
  "run_rk4 C n Plist dt = Some Plist' \<Longrightarrow> map kept3 Plist' = map kept3 Plist"
proof (induction n arbitrary: Plist)
  case 0
  then show ?case by simp
next
  case (Suc n)
  from Suc.prems obtain P1 where u: "update_particles C Plist dt = Some P1"
    and rec: "run_rk4 C n P1 dt = Some Plist'"
    by (auto split: option.splits)
  from u have "map kept3 P1 = map kept3 Plist"
    unfolding update_particles_def by (rule update_particles_loop_kept)
  with Suc.IH [OF rec] show ?case by simp
qed

subsection \<open>The Runge-Kutta program with a zero time step\<close>

lemma acceleration_loop_defined:
  assumes "\<forall>j\<in>set js. j \<noteq> self \<longrightarrow>
             pos (Plist ! self) \<noteq> pos (Plist ! j) \<and> mas (Plist ! self) \<noteq> 0"
  shows "\<exists>a'. acceleration_loop C Plist self x js a = Some a'"
  using assms
proof (induction js arbitrary: a)
  case Nil
  then show ?case by (simp del: split_paired_Ex)
next
  case (Cons j js)
  have others: "\<forall>j\<in>set js. j \<noteq> self \<longrightarrow>
             pos (Plist ! self) \<noteq> pos (Plist ! j) \<and> mas (Plist ! self) \<noteq> 0"
    using Cons.prems by simp
  show ?case
  proof (cases "j = self")
    case True
    then show ?thesis using Cons.IH [OF others] by simp
  next
    case False
    then have "pos (Plist ! self) \<noteq> pos (Plist ! j)" "mas (Plist ! self) \<noteq> 0"
      using Cons.prems by simp_all
    then show ?thesis using False Cons.IH [OF others] by (simp add: Let_def dist_to_zero_iff)
  qed
qed

lemma acceleration_defined:
  assumes "distinct (map pos Plist)" "list_all (\<lambda>p. mas p \<noteq> 0) Plist" "i < length Plist"
  shows "\<exists>a. acceleration C Plist i x = Some a"
  unfolding acceleration_def
proof (rule acceleration_loop_defined, intro ballI impI)
  fix j assume "j \<in> set [0..<length Plist]" "j \<noteq> i"
  then have "i \<noteq> j" "j < length Plist" by auto
  then have "pos (Plist ! i) \<noteq> pos (Plist ! j)"
    using assms(1,3) by (intro distinct_map_nth)
  moreover have "mas (Plist ! i) \<noteq> 0"
    using assms(2,3) by (simp add: list_all_length)
  ultimately show "pos (Plist ! i) \<noteq> pos (Plist ! j) \<and> mas (Plist ! i) \<noteq> 0" ..
qed

lemma rk4_zero:
  assumes "distinct (map pos Plist)" "list_all (\<lambda>p. mas p \<noteq> 0) Plist" "i < length Plist"
  shows "rk4 C Plist i 0 = Some (pos (Plist ! i), vel (Plist ! i))"
proof -
  obtain a where a: "acceleration C Plist i (pos (Plist ! i)) = Some a"
    using acceleration_defined [OF assms] by blast
  show ?thesis by (simp add: rk4_def a)
qed

lemma update_particles_loop_zero:
  assumes "distinct (map pos Plist)" "list_all (\<lambda>p. mas p \<noteq> 0) Plist"
    "set is \<subseteq> {..<length Plist}"
  shows "update_particles_loop C Plist is 0 = Some Plist"
  using assms(3)
proof (induction "is")
  case Nil
  then show ?case by simp
next
  case (Cons i "is")
  then have "i < length Plist" by simp
  then have "rk4 C Plist i 0 = Some (pos (Plist ! i), vel (Plist ! i))"
    by (rule rk4_zero [OF assms(1,2)])
  with Cons show ?case by simp
qed

lemma run_rk4_zero:
  assumes "distinct (map pos Plist)" "list_all (\<lambda>p. mas p \<noteq> 0) Plist"
  shows "run_rk4 C n Plist 0 = Some Plist"
proof -
  have "update_particles C Plist 0 = Some Plist"
    unfolding update_particles_def using assms by (intro update_particles_loop_zero) auto
  then show ?thesis by (induction n) simp_all
qed

subsection \<open>The order of the updates within one step\<close>

lemma update_particles_loop_untouched:
  "update_particles_loop C S is dt = Some L' \<Longrightarrow>
     length L' = length S \<and> (\<forall>j. j \<notin> set is \<longrightarrow> L' ! j = S ! j)"
proof (induction "is" arbitrary: S)
  case Nil
  then show ?case by simp
next
  case (Cons i "is")
  from Cons.prems obtain np nv where
    rec: "update_particles_loop C (S[i := (S ! i)\<lparr>pos := np, vel := nv\<rparr>]) is dt = Some L'"
    by (auto split: option.splits)
  from Cons.IH [OF rec] show ?case by auto
qed

lemma update_particles_loop_upt:
  assumes "n \<le> length S" "update_particles_loop C S [k..<n] dt = Some L'" "k \<le> i" "i < n"
  shows "rk4 C (take i L' @ drop i S) i dt = Some (pos (L' ! i), vel (L' ! i))"
  using assms
proof (induction "n - k" arbitrary: k S)
  case 0
  then show ?case by simp
next
  case (Suc m)
  then have kn: "k < n" by simp
  then have upt: "[k..<n] = k # [Suc k..<n]" by (rule upt_conv_Cons)
  from Suc.prems(2) obtain np nv where r: "rk4 C S k dt = Some (np, nv)"
    and rec: "update_particles_loop C (S[k := (S ! k)\<lparr>pos := np, vel := nv\<rparr>]) [Suc k..<n] dt = Some L'"
    unfolding upt by (auto split: option.splits)
  let ?S1 = "S[k := (S ! k)\<lparr>pos := np, vel := nv\<rparr>]"
  note un = update_particles_loop_untouched [OF rec]
  have len: "length L' = length S" using un by simp
  have kS: "k < length S" using kn Suc.prems(1) by simp
  show ?case
  proof (cases "i = k")
    case True
    have "L' ! k = ?S1 ! k" using un by simp
    then have Lk: "L' ! k = (S ! k)\<lparr>pos := np, vel := nv\<rparr>" using kS by simp
    have pre: "L' ! j = S ! j" if "j < k" for j
    proof -
      have "L' ! j = ?S1 ! j" using un that by simp
      then show ?thesis using that by simp
    qed
    have "take k L' = take k S"
      by (rule nth_take_lemma) (use kS len pre in auto)
    then have "take k L' @ drop k S = S" by simp
    with r Lk True show ?thesis by simp
  next
    case False
    then have ki: "Suc k \<le> i" using Suc.prems(3) by simp
    have m: "m = n - Suc k" using Suc.hyps(2) by simp
    have "rk4 C (take i L' @ drop i ?S1) i dt = Some (pos (L' ! i), vel (L' ! i))"
      using Suc.hyps(1) [OF m _ rec ki Suc.prems(4)] Suc.prems(1) by simp
    moreover have "drop i ?S1 = drop i S" using ki by simp
    ultimately show ?thesis by simp
  qed
qed

subsection \<open>The two concrete systems, step by step\<close>

lemma upt_0_2: "[0..<2] = [0, Suc 0]"
  by (simp add: upt_rec)

lemma norm3_axis: "norm3 (a, 0, 0) = \<bar>a\<bar>"
  by simp

lemma acceleration_pair3_0: "acceleration nbody_constants pair3 0 (x, 0, 0) = Some (2 * (1 - x), 0, 0)"
  by (simp add: acceleration_def pair3_def upt_0_2 nbody_constants_def dist_to_def zeros3_def Let_def)

lemma acceleration_pair3_1: "acceleration nbody_constants pair3 (Suc 0) (x, 0, 0) = Some (- (2 * x), 0, 0)"
  by (simp add: acceleration_def pair3_def upt_0_2 nbody_constants_def dist_to_def zeros3_def Let_def)

lemma acceleration_pair3_half_1:
  "acceleration nbody_constants pair3_half (Suc 0) (x, 0, 0) = Some (128 * (3 / 4 - x), 0, 0)"
  by (simp add: acceleration_def pair3_half_def upt_0_2 nbody_constants_def dist_to_def zeros3_def Let_def
      norm3_axis power2_eq_square field_simps del: norm3.simps)

lemma ForceModel_spec_pair3_0: "ForceModel_spec nbody_constants pair3 0 (1 / 2, 0, 0) = Some (8, 0, 0)"
  by (simp add: ForceModel_spec_def pair3_def upt_0_2 nbody_constants_def zeros3_def Let_def
      norm3_axis power2_eq_square del: norm3.simps)

lemma rk4_pair3_0: "rk4 nbody_constants pair3 0 1 = Some ((3 / 4, 0, 0), (17 / 12, 0, 0))"
  by (simp add: rk4_def pair3_def [THEN arg_cong, of "\<lambda>l. l ! 0"] acceleration_pair3_0 Let_def)

lemma rk4_pair3_1: "rk4 nbody_constants pair3 (Suc 0) 1 = Some ((1 / 4, 0, 0), (- (17 / 12), 0, 0))"
  by (simp add: rk4_def pair3_def [THEN arg_cong, of "\<lambda>l. l ! Suc 0"] acceleration_pair3_1 Let_def)

lemma rk4_pair3_half_1:
  "rk4 nbody_constants pair3_half (Suc 0) 1 = Some ((- 5135, 0, 0), (- (46688 / 3), 0, 0))"
  by (simp add: rk4_def pair3_half_def [THEN arg_cong, of "\<lambda>l. l ! Suc 0"] acceleration_pair3_half_1 Let_def)

lemma pair3_step0: "pair3[0 := (pair3 ! 0)\<lparr>pos := (3 / 4, 0, 0), vel := (17 / 12, 0, 0)\<rparr>] = pair3_half"
  by (simp add: pair3_def pair3_half_def)

lemma pair3_step1:
  "pair3_half[Suc 0 := (pair3_half ! Suc 0)\<lparr>pos := (- 5135, 0, 0), vel := (- (46688 / 3), 0, 0)\<rparr>] = pair3_after"
  by (simp add: pair3_half_def pair3_after_def)

lemma update_particles_pair3: "update_particles nbody_constants pair3 1 = Some pair3_after"
proof -
  have "length pair3 = 2" by (simp add: pair3_def)
  then show ?thesis
    by (simp add: update_particles_def upt_0_2 rk4_pair3_0 pair3_step0 rk4_pair3_half_1 pair3_step1)
qed

lemma gravitation_pair_level:
  assumes "index p1 \<noteq> index p2" "snd (position p1) = snd (position p2)"
    "fst (position p1) \<noteq> fst (position p2)" "mass p1 \<noteq> 0"
  shows "gravitation_pair p1 p2 dt =
         Some (p1\<lparr>velocity :=
           (fst (velocity p1) +
              sgn (fst (position p2) - fst (position p1)) *
                (grav_constant * mass p2 / (fst (position p2) - fst (position p1))\<^sup>2) * dt,
            snd (velocity p1))\<rparr>)"
proof -
  define dx where "dx = fst (position p2) - fst (position p1)"
  have dx: "dx \<noteq> 0" using assms(3) by (simp add: dx_def)
  have d: "distance_to p1 p2 = \<bar>dx\<bar>"
    using assms(2) by (simp add: distance_to_def dx_def)
  have t: "sin (arctan2 dx 0) = sgn dx" "cos (arctan2 dx 0) = 0"
    using dx by (auto simp: arctan2_def sgn_if)
  show ?thesis
    using assms(1,2,4) dx
    unfolding gravitation_pair_def Let_def d dx_def [symmetric]
    by (simp add: t)
qed

lemma gravitation_euler_pair: "gravitation euler_pair 2 = Some euler_pair_kicked"
proof -
  have len: "length euler_pair = 2" by (simp add: euler_pair_def)
  show ?thesis
    unfolding gravitation_def len upt_0_2
    by (simp add: euler_pair_def euler_pair_kicked_def gravitation_pair_level grav_constant_def
        gravitation_pair_def [where ?p1.0 = p and ?p2.0 = p for p])
qed

lemma gravitation_euler_pair_moved: "gravitation euler_pair_moved 2 = Some euler_pair_kicked2"
proof -
  have len: "length euler_pair_moved = 2" by (simp add: euler_pair_moved_def)
  show ?thesis
    unfolding gravitation_def len upt_0_2
    by (simp add: euler_pair_moved_def euler_pair_kicked2_def gravitation_pair_level grav_constant_def
        gravitation_pair_def [where ?p1.0 = p and ?p2.0 = p for p])
qed

lemma euler_pair_move0: "euler_pair_kicked[0 := update_position (euler_pair_kicked ! 0) 2] = euler_pair_moved"
  by (simp add: euler_pair_kicked_def euler_pair_moved_def update_position_def)

lemma euler_pair_move1: "euler_pair_kicked2[Suc 0 := update_position (euler_pair_kicked2 ! Suc 0) 2] = euler_pair_after"
  by (simp add: euler_pair_kicked2_def euler_pair_after_def update_position_def)

lemma cycle_euler_pair: "cycle euler_pair 2 = Some euler_pair_after"
proof -
  have len: "length euler_pair = 2" by (simp add: euler_pair_def)
  show ?thesis
    unfolding cycle_def len upt_0_2
    by (simp add: gravitation_euler_pair euler_pair_move0 gravitation_euler_pair_moved euler_pair_move1)
qed

subsection \<open>The force model\<close>

lemma norm3_vsub_commute: "norm3 (vsub a b) = norm3 (vsub b a)"
  by (cases a; cases b) (simp add: power2_commute)

lemma acceleration_loop_at_stored_position:
  "acceleration_loop C Plist b (pos (Plist ! b)) js a =
   ForceModel_loop C Plist b (pos (Plist ! b)) js a"
  by (induction js arbitrary: a)
    (simp_all add: Let_def dist_to_def norm3_vsub_commute [of "pos (Plist ! b)"])

lemma acceleration_at_stored_position:
  "acceleration C Plist b (pos (Plist ! b)) = ForceModel_spec C Plist b (pos (Plist ! b))"
  by (simp add: acceleration_def ForceModel_spec_def acceleration_loop_at_stored_position)

text \<open>
  C1. The claim: for every body \<open>b\<close>, candidate position \<open>p\<close> and body list, the
  acceleration returned is the sum over the other bodies \<open>o\<close> of
  \<open>((G * b.mass * o.mass / dist^2) / b.mass) * (delta / dist)\<close> with
  \<open>delta = o.position - p\<close> and \<open>dist = |delta|\<close> taken from the candidate position.
  The source takes \<open>delta\<close> from \<open>p\<close> but \<open>dist\<close> from the stored position of \<open>b\<close>
  (\<open>self.dist_to(p1)\<close>). For the first particle of \<open>pair3\<close> (stored at the origin, the
  other particle at \<open>x = 1\<close>, \<open>G\<close> times its mass \<open>2\<close>) at the candidate position
  \<open>x = 1/2\<close>, which is the position \<open>kp2\<close> of \<open>rk4\<close> with \<open>dt = 1\<close>, the source returns
  \<open>2 / 1^2 * (1/2) / 1 = 1\<close> where the claimed formula gives \<open>2 / (1/2)^2 * (1/2) / (1/2) = 8\<close>.
  The two agree where the candidate position is the stored one
  (\<open>acceleration_at_stored_position\<close>).
\<close>

theorem acceleration_distance_from_stored_position:
  "acceleration nbody_constants pair3 0 (1 / 2, 0, 0) = Some (1, 0, 0)
   \<and> ForceModel_spec nbody_constants pair3 0 (1 / 2, 0, 0) = Some (8, 0, 0)"
  by (simp add: acceleration_pair3_0 ForceModel_spec_pair3_0)

subsection \<open>One cycle of the Euler program\<close>

text \<open>
  C3. The claim: in one full step of the Euler path each body's velocity is updated exactly
  once, by \<open>acceleration * dt\<close> from a single force evaluation at its current position, and
  its position then advances with the updated velocity. In the source one cycle calls
  \<open>gravitation\<close>, which updates every velocity, once for each particle of the list. For
  \<open>euler_pair\<close> with \<open>dt = 2\<close> a single call of \<open>gravitation\<close> takes the velocity of
  particle 0 from \<open>0\<close> to \<open>1/2\<close>; the cycle calls it twice, the second time with particle 0
  already moved to \<open>x = 1\<close>, and leaves the velocity at \<open>1/2 + 2 = 5/2\<close>.
\<close>

theorem cycle_kicks_each_round:
  "gravitation euler_pair 2 = Some euler_pair_kicked
   \<and> velocity (euler_pair_kicked ! 0) = (1 / 2, 0)
   \<and> cycle euler_pair 2 = Some euler_pair_after
   \<and> velocity (euler_pair_after ! 0) = (5 / 2, 0)"
proof (intro conjI)
  show "gravitation euler_pair 2 = Some euler_pair_kicked"
    by (rule gravitation_euler_pair)
  show "cycle euler_pair 2 = Some euler_pair_after"
    by (rule cycle_euler_pair)
qed (simp_all add: euler_pair_kicked_def euler_pair_after_def)

subsection \<open>The order of the updates, stated\<close>

text \<open>
  C4, as claimed: within one step every body's update reads the other bodies at their
  pre-step state. It fails: \<open>update_particles\<close> writes each new state into the list before
  the next particle is updated. For \<open>pair3\<close> with \<open>dt = 1\<close>, the update of particle 1
  against the pre-step list would give position \<open>1/4\<close> and velocity \<open>-17/12\<close>; the step
  gives \<open>-5135\<close> and \<open>-46688/3\<close>, computed with particle 0 already at \<open>3/4\<close>.
\<close>

theorem update_particles_not_from_snapshot:
  "update_particles nbody_constants pair3 1 = Some pair3_after
   \<and> rk4 nbody_constants pair3 1 1 = Some ((1 / 4, 0, 0), (- (17 / 12), 0, 0))
   \<and> rk4 nbody_constants pair3 1 1 \<noteq> Some (pos (pair3_after ! 1), vel (pair3_after ! 1))"
proof (intro conjI)
  show "update_particles nbody_constants pair3 1 = Some pair3_after"
    by (rule update_particles_pair3)
  show "rk4 nbody_constants pair3 1 1 = Some ((1 / 4, 0, 0), (- (17 / 12), 0, 0))"
    by (simp add: rk4_pair3_1)
  show "rk4 nbody_constants pair3 1 1 \<noteq> Some (pos (pair3_after ! 1), vel (pair3_after ! 1))"
    by (simp add: rk4_pair3_1 pair3_after_def)
qed

text \<open>
  C4, amended: during one step the particles are updated in list order and in place. The
  new state of particle \<open>i\<close> is the \<open>rk4\<close> update computed on the list in which the
  particles before \<open>i\<close> are already at their new state and the particles from \<open>i\<close> on are
  still at their pre-step state; that list is fixed during the four stages.
\<close>

theorem update_particles_sequential:
  assumes "update_particles C Plist dt = Some Plist'" "i < length Plist"
  shows "rk4 C (take i Plist' @ drop i Plist) i dt = Some (pos (Plist' ! i), vel (Plist' ! i))"
  using assms unfolding update_particles_def
  by (intro update_particles_loop_upt [where k = 0 and n = "length Plist"]) simp_all

text \<open>The amended C4 at \<open>pair3\<close>, for particle 1.\<close>

theorem update_particles_sequential_witness:
  "update_particles nbody_constants pair3 1 = Some pair3_after
   \<and> 1 < length pair3
   \<and> rk4 nbody_constants (take 1 pair3_after @ drop 1 pair3) 1 1 =
       Some (pos (pair3_after ! 1), vel (pair3_after ! 1))"
proof -
  have l: "1 < length pair3" by (simp add: pair3_def)
  from update_particles_sequential [OF update_particles_pair3 l] l update_particles_pair3
  show ?thesis by simp
qed

subsection \<open>Momentum\<close>

text \<open>
  C5, as claimed: the sum of mass times velocity is the same after any number of steps, in
  exact arithmetic, for the Euler step and for the Runge-Kutta step. It fails for
  \<open>update_particles\<close>: \<open>pair3\<close> starts at rest, with momentum zero, and after one step
  with \<open>dt = 1\<close> its particles have equal masses and the velocities \<open>17/12\<close> and
  \<open>-46688/3\<close>.
\<close>

theorem rk4_momentum_changes:
  "update_particles nbody_constants pair3 1 = Some pair3_after
   \<and> momentum3 pair3 = (0, 0, 0)
   \<and> momentum3 pair3_after \<noteq> momentum3 pair3"
proof (intro conjI)
  show "update_particles nbody_constants pair3 1 = Some pair3_after"
    by (rule update_particles_pair3)
  show "momentum3 pair3 = (0, 0, 0)"
    by (simp add: momentum3_def pair3_def)
  show "momentum3 pair3_after \<noteq> momentum3 pair3"
    by (simp add: momentum3_def pair3_after_def pair3_def)
qed

text \<open>
  C5, amended: in exact arithmetic the Euler program conserves the total momentum. Whenever
  \<open>n\<close> cycles of the main loop go through without dividing by zero, the sum of mass times
  velocity over all particles is the same after them as before, for every particle list and
  every time step. Nothing is said of the Runge-Kutta program.
\<close>

theorem euler_momentum_conserved:
  assumes "run_cycles n ps dt = Some ps'"
  shows "momentum ps' = momentum ps"
  using run_cycles_Some [OF assms] by simp

text \<open>The amended C5 at \<open>euler_pair\<close>, for one cycle with \<open>dt = 2\<close>.\<close>

theorem euler_momentum_conserved_witness:
  "run_cycles 1 euler_pair 2 = Some euler_pair_after
   \<and> momentum euler_pair_after = momentum euler_pair"
proof -
  have r: "run_cycles 1 euler_pair 2 = Some euler_pair_after"
    by (simp add: cycle_euler_pair)
  from euler_momentum_conserved [OF r] r show ?thesis by simp
qed

subsection \<open>Construction and configuration\<close>

lemma TIMESTEP_read_args:
  "TIMESTEP (read_args C a) = (if truthy (timestep a) then the (timestep a) else XDAY C / 10)"
  by (simp add: read_args_def Let_def)

text \<open>
  C6, as claimed: a non-positive body mass or a non-positive time step is rejected at
  construction, and no step is taken with such a configuration. It fails: neither
  constructor and neither argument reader checks anything. A particle of \<open>-1\<close> solar masses
  is constructed by both programs, \<open>--timestep -5\<close> is taken as the time step by both, and
  a step with them is carried out.
\<close>

theorem invalid_configuration_accepted:
  "mas (Particle_rk nbody_constants (0, 0, 0) (0, 0, 0) (- 1) 4 (0, 0, 0)) = - (2 * 10 ^ 30)
   \<and> TIMESTEP (read_args nbody_constants
        \<lparr>boxsize = None, timestep = Some (- 5), winsize = None, ticknum = None, ticklen = None\<rparr>)
      = - 5
   \<and> update_particles nbody_constants
        [Particle_rk nbody_constants (0, 0, 0) (0, 0, 0) (- 1) 4 (0, 0, 0)] (- 5) \<noteq> None
   \<and> mass (Particle (0, 0) (0, 0) (- 1) 1 0 ''#000000'') = - (2 * 10 ^ 30)
   \<and> main_time_step (Some (- 5)) = - 5
   \<and> cycle [Particle (0, 0) (0, 0) (- 1) 1 0 ''#000000''] (- 5) \<noteq> None"
proof (intro conjI)
  show "update_particles nbody_constants
        [Particle_rk nbody_constants (0, 0, 0) (0, 0, 0) (- 1) 4 (0, 0, 0)] (- 5) \<noteq> None"
    using update_particles_single
      [of nbody_constants "Particle_rk nbody_constants (0, 0, 0) (0, 0, 0) (- 1) 4 (0, 0, 0)" "- 5"]
    by auto
  show "cycle [Particle (0, 0) (0, 0) (- 1) 1 0 ''#000000''] (- 5) \<noteq> None"
    by (simp add: cycle_single)
qed (simp_all add: Particle_rk_def Particle_def nbody_constants_def M_sun_def TIMESTEP_read_args
      main_time_step_def truthy_def)

text \<open>
  C6, amended: neither program validates the mass or the time step. Every mass \<open>m\<close>,
  positive or not, gives a particle whose stored mass is \<open>m\<close> times the solar mass; a
  \<open>--timestep\<close> \<open>t\<close> is taken as it is unless it is zero, a zero one being replaced by
  the default (a tenth of \<open>XDAY\<close>, respectively \<open>24 * 3600\<close>); and the simulation of a
  particle so constructed runs with that time step for any number of steps.
\<close>

theorem configuration_not_validated:
  "mas (Particle_rk C init_pos init_vel m r c) = m * XMSUN C
   \<and> mass (Particle init_pos2 init_vel2 m r2 idx c2) = m * M_sun
   \<and> TIMESTEP (read_args C (a\<lparr>timestep := Some t\<rparr>)) = (if t = 0 then XDAY C / 10 else t)
   \<and> main_time_step (Some t) = (if t = 0 then 24 * 3600 else t)
   \<and> run_rk4 C n [Particle_rk C init_pos init_vel m r c]
        (TIMESTEP (read_args C (a\<lparr>timestep := Some t\<rparr>))) \<noteq> None
   \<and> run_cycles n [Particle init_pos2 init_vel2 m r2 idx c2] (main_time_step (Some t)) \<noteq> None"
proof (intro conjI)
  show "run_rk4 C n [Particle_rk C init_pos init_vel m r c]
        (TIMESTEP (read_args C (a\<lparr>timestep := Some t\<rparr>))) \<noteq> None"
    using run_rk4_single [of C n "Particle_rk C init_pos init_vel m r c"
        "TIMESTEP (read_args C (a\<lparr>timestep := Some t\<rparr>))"]
    by auto
  show "run_cycles n [Particle init_pos2 init_vel2 m r2 idx c2] (main_time_step (Some t)) \<noteq> None"
    using run_cycles_single [of n "Particle init_pos2 init_vel2 m r2 idx c2" "main_time_step (Some t)"]
    by auto
qed (simp_all add: Particle_rk_def Particle_def TIMESTEP_read_args main_time_step_def truthy_def)

text \<open>
  C7, as claimed: every constructor converts position, velocity and mass to SI units, the
  stored position being the input times the solar radius. It fails for the constructor of
  nbody.py, which stores the position as it is given.
\<close>

theorem nbody_position_not_converted:
  "position (Particle (1, 1) (0, 0) 1 1 0 ''#000000'') = (1, 1)
   \<and> position (Particle (1, 1) (0, 0) 1 1 0 ''#000000'') \<noteq> (1 * R_sun, 1 * R_sun)"
  by (simp add: Particle_def R_sun_def)

text \<open>
  C7, amended: the constructor of the Runge-Kutta program stores the position times
  \<open>XRSUN\<close>, the velocity times \<open>XKM\<close> and the mass times \<open>XMSUN\<close>. The constructor of
  nbody.py stores the velocity times \<open>1000\<close> and the mass times \<open>2 * 10^30\<close>, and the
  position unchanged: its caller passes metres.
\<close>

theorem constructor_conversions:
  "pos (Particle_rk C (x, y, z) (vx, vy, vz) m r c) = (x * XRSUN C, y * XRSUN C, z * XRSUN C)
   \<and> vel (Particle_rk C (x, y, z) (vx, vy, vz) m r c) = (vx * XKM C, vy * XKM C, vz * XKM C)
   \<and> mas (Particle_rk C (x, y, z) (vx, vy, vz) m r c) = m * XMSUN C
   \<and> position (Particle (x, y) (vx, vy) m r2 idx c2) = (x, y)
   \<and> velocity (Particle (x, y) (vx, vy) m r2 idx c2) = (vx * 1000, vy * 1000)
   \<and> mass (Particle (x, y) (vx, vy) m r2 idx c2) = m * (2 * 10 ^ 30)"
  by (simp add: Particle_rk_def Particle_def km_def M_sun_def)

subsection \<open>Zero time step, single particle, frame\<close>

text \<open>
  C8, as claimed: for every particle list in which no two particles are at the same
  position, integrating with \<open>dt = 0\<close> leaves every position and velocity unchanged, for
  both programs. It fails where a mass is zero: the quotient \<open>Fx / p1.mass\<close>, respectively
  \<open>Force / self.mas\<close>, is then zero divided by zero, and the velocity that is stored is
  no longer the initial one. In \<open>massless_pair\<close> and \<open>massless_pair3\<close> the particles are
  at distinct positions and the first has mass zero; one step with \<open>dt = 0\<close> does not
  return them.
\<close>

theorem zero_step_massless_fails:
  "distinct (map position massless_pair)
   \<and> run_cycles 1 massless_pair 0 = None
   \<and> run_cycles 1 massless_pair 0 \<noteq> Some massless_pair
   \<and> distinct (map pos massless_pair3)
   \<and> run_rk4 nbody_constants 1 massless_pair3 0 = None
   \<and> run_rk4 nbody_constants 1 massless_pair3 0 \<noteq> Some massless_pair3"
proof -
  have e: "gravitation massless_pair 0 = None"
    by (simp add: gravitation_def massless_pair_def upt_0_2 gravitation_pair_def Let_def)
  have c: "cycle massless_pair 0 = None"
    by (simp add: cycle_def massless_pair_def [THEN arg_cong, of length] upt_0_2 e)
  have a: "acceleration nbody_constants massless_pair3 0 (0, 0, 0) = None"
    by (simp add: acceleration_def massless_pair3_def upt_0_2 Let_def)
  have r: "rk4 nbody_constants massless_pair3 0 0 = None"
    by (simp add: rk4_def massless_pair3_def [THEN arg_cong, of "\<lambda>l. l ! 0"] a)
  have u: "update_particles nbody_constants massless_pair3 0 = None"
    by (simp add: update_particles_def massless_pair3_def [THEN arg_cong, of length] upt_0_2 r)
  show ?thesis
    by (simp add: c u) (simp add: massless_pair_def massless_pair3_def)
qed

text \<open>
  C8, amended: in exact arithmetic, for every particle list in which no two particles are
  at the same position and every mass is non-zero, integrating with \<open>dt = 0\<close> leaves every
  particle exactly as it was, position and velocity included, for any number of cycles of
  the Euler program and any number of steps of the Runge-Kutta program.
\<close>

theorem zero_step_unchanged:
  assumes "distinct (map position ps)" "list_all (\<lambda>p. mass p \<noteq> 0) ps"
      and "distinct (map pos Plist)" "list_all (\<lambda>p. mas p \<noteq> 0) Plist"
  shows "run_cycles n ps 0 = Some ps \<and> run_rk4 C n Plist 0 = Some Plist"
  using run_cycles_zero [OF assms(1,2)] run_rk4_zero [OF assms(3,4)] by simp

text \<open>The amended C8 at \<open>euler_pair\<close> and \<open>pair3\<close>, for three steps.\<close>

theorem zero_step_unchanged_witness:
  "run_cycles 3 euler_pair 0 = Some euler_pair \<and> run_rk4 nbody_constants 3 pair3 0 = Some pair3"
proof -
  have 1: "distinct (map position euler_pair)" by (simp add: euler_pair_def)
  have 2: "list_all (\<lambda>p. mass p \<noteq> 0) euler_pair" by (simp add: euler_pair_def)
  have 3: "distinct (map pos pair3)" by (simp add: pair3_def)
  have 4: "list_all (\<lambda>p. mas p \<noteq> 0) pair3" by (simp add: pair3_def)
  show ?thesis by (rule zero_step_unchanged [OF 1 2 3 4])
qed

text \<open>
  C9. A system of exactly one particle keeps its velocity: after any number of cycles of
  the Euler program and after any number of steps of the Runge-Kutta program, with any
  time step, the run has succeeded, the list still holds one particle, and its velocity is
  the initial one.
\<close>

theorem single_body_velocity_unchanged:
  "(\<exists>p'. run_cycles n [p] dt = Some [p'] \<and> velocity p' = velocity p)
   \<and> (\<exists>q'. run_rk4 C n [q] dt = Some [q'] \<and> vel q' = vel q)"
  using run_cycles_single [of n p dt] run_rk4_single [of C n q dt] by simp

lemma kept_fields:
  assumes "map kept ps' = map kept ps"
  shows "map mass ps' = map mass ps \<and> map radius ps' = map radius ps
       \<and> map colour ps' = map colour ps \<and> map index ps' = map index ps"
proof -
  have via: "map (f \<circ> kept) ps' = map (f \<circ> kept) ps" for f :: "real \<times> real \<times> string \<times> nat \<Rightarrow> 'b"
    using assms by (simp only: map_map [symmetric])
  have "mass = fst \<circ> kept" "radius = (fst \<circ> snd) \<circ> kept"
    "colour = (fst \<circ> snd \<circ> snd) \<circ> kept" "index = (snd \<circ> snd \<circ> snd) \<circ> kept"
    by (simp_all add: fun_eq_iff kept_def)
  then show ?thesis using via by metis
qed

lemma kept3_fields:
  assumes "map kept3 Plist' = map kept3 Plist"
  shows "map mas Plist' = map mas Plist \<and> map rad Plist' = map rad Plist
       \<and> map col Plist' = map col Plist"
proof -
  have via: "map (f \<circ> kept3) Plist' = map (f \<circ> kept3) Plist"
    for f :: "real \<times> real \<times> (nat \<times> nat \<times> nat) \<Rightarrow> 'b"
    using assms by (simp only: map_map [symmetric])
  have "mas = fst \<circ> kept3" "rad = (fst \<circ> snd) \<circ> kept3" "col = (snd \<circ> snd) \<circ> kept3"
    by (simp_all add: fun_eq_iff kept3_def)
  then show ?thesis using via by metis
qed

text \<open>
  C10. An integration step changes nothing of a particle but its position and velocity.
  After one cycle of the Euler program (and after each call of \<open>gravitation\<close> and of
  \<open>update_position\<close> in it) the list holds, place by place, the same masses, radii, colours
  and indices as before; after one \<open>update_particles\<close> of the Runge-Kutta program the list
  holds, place by place, the same masses, radii and colours. This is so for every time step.
\<close>

theorem step_frame:
  "(gravitation ps dt = Some ps1 \<longrightarrow>
      map mass ps1 = map mass ps \<and> map radius ps1 = map radius ps
      \<and> map colour ps1 = map colour ps \<and> map index ps1 = map index ps)
   \<and> (mass (update_position p dt) = mass p \<and> radius (update_position p dt) = radius p
      \<and> colour (update_position p dt) = colour p \<and> index (update_position p dt) = index p)
   \<and> (cycle ps dt = Some ps' \<longrightarrow>
      map mass ps' = map mass ps \<and> map radius ps' = map radius ps
      \<and> map colour ps' = map colour ps \<and> map index ps' = map index ps)
   \<and> (update_particles C Plist h = Some Plist' \<longrightarrow>
      map mas Plist' = map mas Plist \<and> map rad Plist' = map rad Plist
      \<and> map col Plist' = map col Plist)"
proof (intro conjI impI)
  assume "gravitation ps dt = Some ps1"
  then have "map kept ps1 = map kept ps"
    by (intro rest_kept gravitation_Some(1))
  from kept_fields [OF this]
  show "map mass ps1 = map mass ps" "map radius ps1 = map radius ps"
    "map colour ps1 = map colour ps" "map index ps1 = map index ps"
    by simp_all
next
  assume "cycle ps dt = Some ps'"
  then have "map kept ps' = map kept ps"
    unfolding cycle_def by (simp add: cycle_loop_Some)
  from kept_fields [OF this]
  show "map mass ps' = map mass ps" "map radius ps' = map radius ps"
    "map colour ps' = map colour ps" "map index ps' = map index ps"
    by simp_all
next
  assume "update_particles C Plist h = Some Plist'"
  then have "map kept3 Plist' = map kept3 Plist"
    unfolding update_particles_def by (rule update_particles_loop_kept)
  from kept3_fields [OF this]
  show "map mas Plist' = map mas Plist" "map rad Plist' = map rad Plist"
    "map col Plist' = map col Plist"
    by simp_all
qed (simp_all add: update_position_def Let_def)

text \<open>C10 at \<open>euler_pair\<close> with \<open>dt = 2\<close> and at \<open>pair3\<close> with \<open>dt = 1\<close>.\<close>

theorem step_frame_witness:
  "gravitation euler_pair 2 = Some euler_pair_kicked
   \<and> map mass euler_pair_kicked = map mass euler_pair
   \<and> map index euler_pair_kicked = map index euler_pair
   \<and> cycle euler_pair 2 = Some euler_pair_after
   \<and> map mass euler_pair_after = map mass euler_pair
   \<and> map radius euler_pair_after = map radius euler_pair
   \<and> map colour euler_pair_after = map colour euler_pair
   \<and> map index euler_pair_after = map index euler_pair
   \<and> update_particles nbody_constants pair3 1 = Some pair3_after
   \<and> map mas pair3_after = map mas pair3
   \<and> map rad pair3_after = map rad pair3
   \<and> map col pair3_after = map col pair3"
  using step_frame [of euler_pair 2 euler_pair_kicked _ euler_pair_after nbody_constants pair3 1 pair3_after]
    gravitation_euler_pair cycle_euler_pair update_particles_pair3
  by simp

end
